theory Spec2Isabelle
  imports Complex_Main
begin

section \<open>Values of the JavaScript runtime and of the ethers library\<close>

text \<open>
  A thrown \<open>Error\<close> carries its message; the handlers of the bot dispatch on
  \<open>error.message.includes(...)\<close>. Every operation that can throw returns
  \<open>error + 'a\<close>, with \<open>Inl\<close> for the exception.
\<close>

datatype error = Error (message: string)

text \<open>
  An \<open>ethers.BigNumber\<close> is an arbitrary-precision signed integer: \<open>add\<close>, \<open>sub\<close>
  and \<open>mul\<close> are exact, \<open>div\<close> truncates towards zero and throws on a zero divisor,
  \<open>toNumber\<close> throws when the value needs more than 53 bits.
\<close>

definition tdiv :: "int \<Rightarrow> int \<Rightarrow> int" where
  "tdiv a b = sgn a * sgn b * (\<bar>a\<bar> div \<bar>b\<bar>)"

definition bn_div :: "int \<Rightarrow> int \<Rightarrow> error + int" where
  "bn_div a b = (if b = 0 then Inl (Error ''division-by-zero'') else Inr (tdiv a b))"

definition toNumber :: "int \<Rightarrow> error + int" where
  "toNumber x = (if \<bar>x\<bar> < 2 ^ 53 then Inr x else Inl (Error ''overflow''))"

definition gwei :: "int \<Rightarrow> int" where
  "gwei n = n * 10 ^ 9"

definition ether_milli :: "int \<Rightarrow> int" where
  \<comment> \<open>\<open>parseEther\<close> of a number of thousandths of one ether\<close>
  "ether_milli n = n * 10 ^ 15"

text \<open>
  A JavaScript number that starts out \<open>undefined\<close>: \<open>this.stats.errors++\<close> of the
  arbitrage service increments a field its constructor never sets.
\<close>

datatype jsnum = Undefined | NaN | Num int

fun js_increment :: "jsnum \<Rightarrow> jsnum" where
  "js_increment Undefined = NaN"
| "js_increment NaN = NaN"
| "js_increment (Num n) = Num (n + 1)"

text \<open>
  A token address is a string, or \<open>undefined\<close> (\<open>None\<close>). \<open>!token\<close> holds for
  \<open>undefined\<close> and for the empty string. \<open>toLowerCase\<close> is modelled on ASCII, the
  alphabet of an address.
\<close>

type_synonym token = "string option"

definition js_falsy :: "token \<Rightarrow> bool" where
  "js_falsy t = (t = None \<or> t = Some [])"

definition toLowerCase_char :: "char \<Rightarrow> char" where
  "toLowerCase_char c =
     (let n = (of_char c :: nat) in if 65 \<le> n \<and> n \<le> 90 then char_of (n + 32) else c)"

definition toLowerCase :: "string \<Rightarrow> string" where
  "toLowerCase s = map toLowerCase_char s"

fun str_includes :: "string \<Rightarrow> string \<Rightarrow> bool" where
  "str_includes [] sub = (sub = [])"
| "str_includes (c # cs) sub = (take (length sub) (c # cs) = sub \<or> str_includes cs sub)"


section \<open>Configuration\<close>

text \<open>The fields of \<open>config\<close> the engine reads, with the defaults of the config module.\<close>

record config =
  maxGasPrice :: int
  gasLimit :: int
  minProfit :: int
  maxSlippage :: rat
  flashLoanAmount :: int
  maxFeeLimit :: int
  maxGasEstimate :: int
  minWalletBalance :: int
  priceCacheTTL :: int
  maxApiRequestsPerMinute :: int
  checkInterval :: int
  liquidityCheckInterval :: int
  blockBasedExecution :: bool

definition default_config :: config where
  "default_config =
     \<lparr> maxGasPrice = gwei 50, gasLimit = 3000000, minProfit = ether_milli 3,
       maxSlippage = 3 / 10, flashLoanAmount = ether_milli 5000,
       maxFeeLimit = ether_milli 12, maxGasEstimate = 3000000,
       minWalletBalance = ether_milli 20, priceCacheTTL = 8000,
       maxApiRequestsPerMinute = 80, checkInterval = 8000,
       liquidityCheckInterval = 60000, blockBasedExecution = True \<rparr>"


section \<open>State of the services\<close>

subsection \<open>Gas service\<close>

record gas_sample =
  price :: int
  timestamp :: int

record gas_service =
  gasPriceCache_current :: "int option"
  gasPriceCache_timestamp :: int
  gasPriceHistory :: "gas_sample list"

definition gasPriceCache_ttl :: int where
  "gasPriceCache_ttl = 5000"

definition maxHistorySize :: nat where
  "maxHistorySize = 100"

definition new_GasService :: gas_service where
  "new_GasService =
     \<lparr> gasPriceCache_current = None, gasPriceCache_timestamp = 0, gasPriceHistory = [] \<rparr>"

subsection \<open>Price service\<close>

text \<open>
  A cache entry is \<open>{price, timestamp}\<close> in the source; the fields are renamed here
  because a gas sample has the same two names. The cache key, a template string
  \<open>uni_<tokenIn>_<tokenOut>_<amountIn or default>\<close>, is kept as the tuple of its parts.
\<close>

datatype dex = Uniswap | Sushiswap

type_synonym cache_key = "dex \<times> string \<times> string \<times> int option"

record cache_entry =
  cached_price :: int
  cached_at :: int

record price_service =
  priceCache :: "cache_key \<Rightarrow> cache_entry option"
  cacheTTL :: int
  lastRequestTime :: int
  minRequestInterval :: rat
  requestCount :: int
  requestResetTime :: int

subsection \<open>Arbitrage service\<close>

record trading_pair =
  token1 :: token
  token2 :: token
  name :: string

datatype direction = UNI_TO_SUSHI | SUSHI_TO_UNI

record opportunity =
  pair :: trading_pair
  direction :: direction
  opp_flashLoanAmount :: int
  profit :: int
  price1 :: int
  price2 :: int
  totalCost :: int
  roi :: rat

record arbitrage_stats =
  totalExecutions :: nat
  successfulArbitrages :: nat
  totalProfit :: int
  totalGasUsed :: int
  lastExecution :: "int option"
  errors :: jsnum

record arbitrage_service =
  isRunning :: bool
  stats :: arbitrage_stats
  lastExecutionTime :: int
  minExecutionInterval :: int
  tradingPairs :: "trading_pair list"

subsection \<open>The world outside the process\<close>

text \<open>
  What the contract call \<open>arbitrage(borrowedToken, amount, extraData, overrides)\<close>
  is given.
\<close>

record extra_data =
  swapToken :: token
  extra_minProfit :: int
  firstRouter :: nat
  secondRouter :: nat

record tx_request =
  borrowedToken :: token
  amount :: int
  extraData :: extra_data
  tx_gasLimit :: int
  tx_gasPrice :: int

record receipt =
  status :: int
  gasUsed :: int

text \<open>
  A router's \<open>getAmountsOut(amountIn, path)\<close> returns one amount per element of the
  path; the engine only ever passes a path of two tokens and reads \<open>amounts[1]\<close>, the
  output of the single hop, which is what the two router fields below answer.
\<close>

text \<open>
  The process interacts with the outside through the clock (\<open>Date.now()\<close>), timers
  and remote calls. The \<open>n\<close>-th interaction of a run is answered by the environment
  at index \<open>n\<close>: the environment is any family of answers, so a theorem for every
  environment covers every behaviour of the clock, of the node and of the exchanges.
\<close>

record env =
  clock :: "nat \<Rightarrow> int"
  provider_getGasPrice :: "nat \<Rightarrow> error + int"
  provider_getBlockNumber :: "nat \<Rightarrow> error + int"
  wallet_getBalance :: "nat \<Rightarrow> error + int"
  aave_liquidityIndex :: "nat \<Rightarrow> error + int"
  uniswap_getAmountsOut :: "nat \<Rightarrow> int \<Rightarrow> token list \<Rightarrow> error + int"
  sushiswap_getAmountsOut :: "nat \<Rightarrow> int \<Rightarrow> token list \<Rightarrow> error + int"
  contract_estimateGas :: "nat \<Rightarrow> token \<Rightarrow> int \<Rightarrow> extra_data \<Rightarrow> error + int"
  contract_arbitrage :: "nat \<Rightarrow> tx_request \<Rightarrow> error + unit"
  tx_wait :: "nat \<Rightarrow> error + receipt"

text \<open>
  The state of the process: the three singleton services, the number of interactions
  so far, and three logs that the source does not keep but the outside observes: the
  delays handed to \<open>setTimeout\<close>; the transactions handed to the contract, each with
  the start time of its execution (newest first); and, for each of these transactions,
  what the clock shows at the moment of the call \<open>contract.arbitrage(...)\<close>.
\<close>

record sys =
  ticks :: nat
  timers :: "rat list"
  submitted :: "(int \<times> tx_request) list"
  sent_at :: "int list"
  gas :: gas_service
  prices :: price_service
  arb :: arbitrage_service

definition tick :: "sys \<Rightarrow> sys" where
  "tick s = s\<lparr>ticks := Suc (ticks s)\<rparr>"

definition Date_now :: "env \<Rightarrow> sys \<Rightarrow> int \<times> sys" where
  "Date_now e s = (clock e (ticks s), tick s)"

definition sleep :: "rat \<Rightarrow> sys \<Rightarrow> sys" where
  \<comment> \<open>\<open>await new Promise(resolve => setTimeout(resolve, ms))\<close>\<close>
  "sleep ms s = tick (s\<lparr>timers := ms # timers s\<rparr>)"


section \<open>Gas service: \<open>gasService.js\<close>\<close>

datatype gas_level = Low | Medium | High | Extreme | Critical

definition thresholds_low :: int where "thresholds_low = gwei 10"
definition thresholds_medium :: int where "thresholds_medium = gwei 30"
definition thresholds_high :: int where "thresholds_high = gwei 50"
definition thresholds_extreme :: int where "thresholds_extreme = gwei 100"

definition getGasPriceLevel :: "int \<Rightarrow> gas_level" where
  "getGasPriceLevel gasPrice =
     (if gasPrice < thresholds_low then Low
      else if gasPrice < thresholds_medium then Medium
      else if gasPrice < thresholds_high then High
      else if gasPrice < thresholds_extreme then Extreme
      else Critical)"

text \<open>The order of the levels, and the thresholds in ascending order.\<close>

fun level_rank :: "gas_level \<Rightarrow> nat" where
  "level_rank Low = 0"
| "level_rank Medium = 1"
| "level_rank High = 2"
| "level_rank Extreme = 3"
| "level_rank Critical = 4"

definition thresholds :: "int list" where
  "thresholds = [thresholds_low, thresholds_medium, thresholds_high, thresholds_extreme]"

definition isGasPriceAcceptable :: "config \<Rightarrow> int \<Rightarrow> bool" where
  "isGasPriceAcceptable cfg gasPrice = (gasPrice \<le> maxGasPrice cfg)"

definition addToHistory :: "env \<Rightarrow> int \<Rightarrow> sys \<Rightarrow> sys" where
  "addToHistory e gasPrice s =
     (let (now, s1) = Date_now e s;
          pushed = gasPriceHistory (gas s1) @ [\<lparr> price = gasPrice, timestamp = now \<rparr>];
          kept = (if length pushed > maxHistorySize then tl pushed else pushed)
      in s1\<lparr>gas := (gas s1)\<lparr>gasPriceHistory := kept\<rparr>\<rparr>)"

definition gasPriceCache_lookup :: "env \<Rightarrow> sys \<Rightarrow> int option \<times> sys" where
  \<comment> \<open>\<open>this.gasPriceCache.current && Date.now() - this.gasPriceCache.timestamp < ttl\<close>:
      the clock is read only when a price is cached\<close>
  "gasPriceCache_lookup e s =
     (case gasPriceCache_current (gas s) of
        None \<Rightarrow> (None, s)
      | Some cached \<Rightarrow>
          let (now, s1) = Date_now e s
          in (if now - gasPriceCache_timestamp (gas s1) < gasPriceCache_ttl
              then Some cached else None, s1))"

definition getCurrentGasPrice :: "env \<Rightarrow> sys \<Rightarrow> (error + int) \<times> sys" where
  "getCurrentGasPrice e s =
     (case gasPriceCache_lookup e s of
        (Some cached, s1) \<Rightarrow> (Inr cached, s1)
      | (None, s1) \<Rightarrow>
          (case provider_getGasPrice e (ticks s1) of
             Inl err \<Rightarrow> (Inl err, tick s1)
           | Inr gasPrice \<Rightarrow>
               let (now, s2) = Date_now e (tick s1);
                   s3 = s2\<lparr>gas := (gas s2)\<lparr>gasPriceCache_current := Some gasPrice,
                                             gasPriceCache_timestamp := now\<rparr>\<rparr>
               in (Inr gasPrice, addToHistory e gasPrice s3)))"



section \<open>Price service: \<open>priceService.js\<close>\<close>

definition new_PriceService :: "config \<Rightarrow> int \<Rightarrow> price_service" where
  \<comment> \<open>the constructor, run at time \<open>now\<close>\<close>
  "new_PriceService cfg now =
     \<lparr> priceCache = (\<lambda>key. None),
       cacheTTL = (if priceCacheTTL cfg = 0 then 12000 else priceCacheTTL cfg),
       lastRequestTime = 0,
       minRequestInterval =
         60000 / of_int (if maxApiRequestsPerMinute cfg = 0 then 100
                         else maxApiRequestsPerMinute cfg),
       requestCount = 0,
       requestResetTime = now \<rparr>"

definition getCachedPrice :: "env \<Rightarrow> cache_key \<Rightarrow> sys \<Rightarrow> int option \<times> sys" where
  "getCachedPrice e key s =
     (case priceCache (prices s) key of
        None \<Rightarrow> (None, s)
      | Some cached \<Rightarrow>
          let (now, s1) = Date_now e s
          in (if now - cached_at cached < cacheTTL (prices s1)
              then Some (cached_price cached) else None, s1))"

definition cachePrice :: "env \<Rightarrow> cache_key \<Rightarrow> int \<Rightarrow> sys \<Rightarrow> sys" where
  "cachePrice e key p s =
     (let (now, s1) = Date_now e s
      in s1\<lparr>prices := (prices s1)\<lparr>priceCache :=
            (priceCache (prices s1))(key \<mapsto> \<lparr> cached_price = p, cached_at = now \<rparr>)\<rparr>\<rparr>)"

definition clearCache :: "sys \<Rightarrow> sys" where
  "clearCache s = s\<lparr>prices := (prices s)\<lparr>priceCache := (\<lambda>key. None)\<rparr>\<rparr>"

definition requestBudget :: "config \<Rightarrow> int" where
  \<comment> \<open>\<open>config.monitoring.maxApiRequestsPerMinute || 100\<close>\<close>
  "requestBudget cfg =
     (if maxApiRequestsPerMinute cfg = 0 then 100 else maxApiRequestsPerMinute cfg)"

text \<open>
  \<open>rateLimit\<close> reads the clock once at its start; when the budget of the window is used
  up it sets a timer for the rest of the window, and after the timer it restarts the
  count and reads the clock again. A call runs here from its first statement to its
  last: what another task does while this one waits is not part of the model.
\<close>

definition rateLimit :: "env \<Rightarrow> config \<Rightarrow> sys \<Rightarrow> (error + unit) \<times> sys" where
  "rateLimit e cfg s =
     (let (now, s1) = Date_now e s;
          s2 = (if now - requestResetTime (prices s1) > 60000
                then s1\<lparr>prices := (prices s1)\<lparr>requestCount := 0, requestResetTime := now\<rparr>\<rparr>
                else s1);
          s3 = (if requestCount (prices s2) \<ge> requestBudget cfg
                then
                  let waitTime = 60000 - (now - requestResetTime (prices s2));
                      (woken, s') = Date_now e (sleep (of_int waitTime) s2)
                  in s'\<lparr>prices := (prices s')\<lparr>requestCount := 0, requestResetTime := woken\<rparr>\<rparr>
                else s2);
          timeSinceLastRequest = now - lastRequestTime (prices s3);
          s4 = (if of_int timeSinceLastRequest < minRequestInterval (prices s3)
                then sleep (minRequestInterval (prices s3) - of_int timeSinceLastRequest) s3
                else s3)
      in (Inr (), s4\<lparr>prices := (prices s4)\<lparr>lastRequestTime := now,
                                             requestCount := requestCount (prices s4) + 1\<rparr>\<rparr>))"

text \<open>
  A call of a router contract. The amount is encoded as a \<open>uint256\<close>: ethers throws,
  before anything is sent, on an amount outside \<open>0 .. 2^256 - 1\<close>.
\<close>

definition router_getAmountsOut ::
  "dex \<Rightarrow> env \<Rightarrow> int \<Rightarrow> token list \<Rightarrow> sys \<Rightarrow> (error + int) \<times> sys" where
  "router_getAmountsOut d e amountIn path s =
     (if amountIn < 0 \<or> 2 ^ 256 \<le> amountIn then (Inl (Error ''value out-of-bounds''), s)
      else ((case d of Uniswap \<Rightarrow> uniswap_getAmountsOut e
                     | Sushiswap \<Rightarrow> sushiswap_getAmountsOut e) (ticks s) amountIn path,
            tick s))"

text \<open>
  \<open>getUniswapPrice\<close> and \<open>getSushiswapPrice\<close> have the same body up to the router they
  call and the prefix of the cache key: \<open>getRouterPrice\<close> is that body.
\<close>

definition getRouterPrice ::
  "dex \<Rightarrow> env \<Rightarrow> config \<Rightarrow> token \<Rightarrow> token \<Rightarrow> int option \<Rightarrow> sys \<Rightarrow> (error + int) \<times> sys" where
  "getRouterPrice d e cfg tokenIn tokenOut amountIn s =
     (if js_falsy tokenIn \<or> js_falsy tokenOut
      then (Inl (Error ''Token addresses cannot be undefined''), s)
      else if toLowerCase (the tokenIn) = toLowerCase (the tokenOut)
      then (Inl (Error ''Cannot get price for identical tokens''), s)
      else
        (case rateLimit e cfg s of
           (Inl err, s1) \<Rightarrow> (Inl err, s1)
         | (Inr _, s1) \<Rightarrow>
             let cacheKey = (d, the tokenIn, the tokenOut, amountIn)
             in (case getCachedPrice e cacheKey s1 of
                   (Some cached, s2) \<Rightarrow> (Inr cached, s2)
                 | (None, s2) \<Rightarrow>
                     let amt = (case amountIn of None \<Rightarrow> ether_milli 1000 | Some a \<Rightarrow> a)
                     in (case router_getAmountsOut d e amt [tokenIn, tokenOut] s2 of
                           (Inl err, s3) \<Rightarrow> (Inl err, s3)
                         | (Inr p, s3) \<Rightarrow> (Inr p, cachePrice e cacheKey p s3)))))"

definition getUniswapPrice ::
  "env \<Rightarrow> config \<Rightarrow> token \<Rightarrow> token \<Rightarrow> int option \<Rightarrow> sys \<Rightarrow> (error + int) \<times> sys" where
  "getUniswapPrice = getRouterPrice Uniswap"

definition getSushiswapPrice ::
  "env \<Rightarrow> config \<Rightarrow> token \<Rightarrow> token \<Rightarrow> int option \<Rightarrow> sys \<Rightarrow> (error + int) \<times> sys" where
  "getSushiswapPrice = getRouterPrice Sushiswap"

text \<open>
  \<open>Promise.all([a, b])\<close> starts both calls; it is modelled by running the first to its
  end and then the second. Both take effect on the state, and the result is the first
  error if one of them fails.
\<close>

definition promise_all2 ::
  "(sys \<Rightarrow> (error + 'a) \<times> sys) \<Rightarrow> (sys \<Rightarrow> (error + 'b) \<times> sys) \<Rightarrow> sys
     \<Rightarrow> (error + 'a \<times> 'b) \<times> sys" where
  "promise_all2 f g s =
     (case f s of
        (ra, s1) \<Rightarrow>
          (case g s1 of
             (rb, s2) \<Rightarrow>
               (case ra of
                  Inl err \<Rightarrow> (Inl err, s2)
                | Inr a \<Rightarrow> (case rb of Inl err \<Rightarrow> (Inl err, s2) | Inr b \<Rightarrow> (Inr (a, b), s2)))))"

record price_difference =
  uniswapPrice :: int
  sushiswapPrice :: int
  difference :: int
  percentage :: rat
  betterDEX :: dex

definition getPriceDifference ::
  "env \<Rightarrow> config \<Rightarrow> token \<Rightarrow> token \<Rightarrow> sys \<Rightarrow> (error + price_difference) \<times> sys" where
  "getPriceDifference e cfg tokenIn tokenOut s =
     (case promise_all2 (getUniswapPrice e cfg tokenIn tokenOut None)
                        (getSushiswapPrice e cfg tokenIn tokenOut None) s of
        (Inl err, s1) \<Rightarrow> (Inl err, s1)
      | (Inr (uniPrice, sushiPrice), s1) \<Rightarrow>
          let diff = (if uniPrice > sushiPrice then uniPrice - sushiPrice
                      else sushiPrice - uniPrice)
          in (case bn_div (diff * 10000) (if uniPrice > sushiPrice then uniPrice else sushiPrice) of
                Inl err \<Rightarrow> (Inl err, s1)
              | Inr pct \<Rightarrow>
                  (case toNumber pct of
                     Inl err \<Rightarrow> (Inl err, s1)
                   | Inr n \<Rightarrow>
                       (Inr \<lparr> uniswapPrice = uniPrice, sushiswapPrice = sushiPrice,
                              difference = diff, percentage = of_int n / 100,
                              betterDEX = (if uniPrice > sushiPrice then Uniswap else Sushiswap) \<rparr>,
                        s1))))"



section \<open>Arbitrage service: \<open>arbitrageService.js\<close>\<close>

definition WETH :: token where
  "WETH = Some ''0xC02aaA39b223FE8D0A0e5C4F27eAD9083C756Cc2''"

definition USDC :: token where
  "USDC = Some ''0xA0b86991c6218b36c1d19D4a2e9Eb0cE3606eB48''"

definition DAI :: token where
  "DAI = Some ''0x6B175474E89094C44Da98b954EedeAC495271d0F''"

definition identical_pair :: "trading_pair \<Rightarrow> bool" where
  \<comment> \<open>\<open>pair.token1.toLowerCase() === pair.token2.toLowerCase()\<close>\<close>
  "identical_pair p = (toLowerCase (the (token1 p)) = toLowerCase (the (token2 p)))"

definition new_ArbitrageService :: arbitrage_service where
  "new_ArbitrageService =
     \<lparr> isRunning = False,
       stats = \<lparr> totalExecutions = 0, successfulArbitrages = 0, totalProfit = 0,
                 totalGasUsed = 0, lastExecution = None, errors = Undefined \<rparr>,
       lastExecutionTime = 0,
       minExecutionInterval = 5000,
       tradingPairs =
         filter (\<lambda>p. \<not> identical_pair p)
           [\<lparr> token1 = WETH, token2 = USDC, name = ''WETH/USDC'' \<rparr>] \<rparr>"

definition initial_sys :: "config \<Rightarrow> int \<Rightarrow> sys" where
  \<comment> \<open>the three singletons as their constructors leave them, built at time \<open>now\<close>\<close>
  "initial_sys cfg now =
     \<lparr> ticks = 0, timers = [], submitted = [], sent_at = [], gas = new_GasService,
       prices = new_PriceService cfg now, arb = new_ArbitrageService \<rparr>"


definition calculateArbitrage ::
  "env \<Rightarrow> config \<Rightarrow> trading_pair \<Rightarrow> int \<Rightarrow> int \<Rightarrow> direction \<Rightarrow> sys
     \<Rightarrow> (error + opportunity) \<times> sys" where
  "calculateArbitrage e cfg p p1 p2 dir s =
     (let loan = flashLoanAmount cfg;
          flashLoanFee = tdiv (loan * 5) 10000;
          router1 = (if dir = UNI_TO_SUSHI then Uniswap else Sushiswap);
          router2 = (if dir = UNI_TO_SUSHI then Sushiswap else Uniswap)
      in case router_getAmountsOut router1 e loan [token1 p, token2 p] s of
           (Inl err, s1) \<Rightarrow> (Inl err, s1)
         | (Inr amountAfterFirstSwap, s1) \<Rightarrow>
             (case router_getAmountsOut router2 e amountAfterFirstSwap [token2 p, token1 p] s1 of
                (Inl err, s2) \<Rightarrow> (Inl err, s2)
              | (Inr amountAfterSecondSwap, s2) \<Rightarrow>
                  let cost = loan + flashLoanFee;
                      gain = amountAfterSecondSwap - cost
                  in (case bn_div (gain * 10000) loan of
                        Inl err \<Rightarrow> (Inl err, s2)
                      | Inr q \<Rightarrow>
                          (case toNumber q of
                             Inl err \<Rightarrow> (Inl err, s2)
                           | Inr n \<Rightarrow>
                               (Inr \<lparr> pair = p, direction = dir, opp_flashLoanAmount = loan,
                                      profit = gain, price1 = p1, price2 = p2,
                                      totalCost = cost, roi = of_int n / 100 \<rparr>, s2)))))"

definition bestOpportunity :: "opportunity \<Rightarrow> opportunity \<Rightarrow> opportunity" where
  \<comment> \<open>\<open>opportunities.reduce((best, current) => current.profit.gt(best.profit) ? current : best)\<close>
      on the two directions\<close>
  "bestOpportunity first second = (if profit second > profit first then second else first)"

definition findArbitrageOpportunity ::
  "env \<Rightarrow> config \<Rightarrow> trading_pair \<Rightarrow> sys \<Rightarrow> opportunity option \<times> sys" where
  "findArbitrageOpportunity e cfg p s =
     (let (startTime, s0) = Date_now e s
      in if js_falsy (token1 p) \<or> js_falsy (token2 p) then (None, s0)
         else if identical_pair p then (None, s0)
         else
           (case promise_all2 (getUniswapPrice e cfg (token1 p) (token2 p) None)
                              (getSushiswapPrice e cfg (token1 p) (token2 p) None) s0 of
              (Inl err, s1) \<Rightarrow> (None, s1)
            | (Inr (uniPrice, sushiPrice), s1) \<Rightarrow>
                (case promise_all2
                        (calculateArbitrage e cfg p uniPrice sushiPrice UNI_TO_SUSHI)
                        (calculateArbitrage e cfg p sushiPrice uniPrice SUSHI_TO_UNI) s1 of
                   (Inl err, s2) \<Rightarrow> (None, s2)
                 | (Inr (first, second), s2) \<Rightarrow>
                     let best = bestOpportunity first second;
                         (endTime, s3) = Date_now e s2
                     in (if profit best > 0 then Some best else None, s3))))"

definition validateOpportunity ::
  "env \<Rightarrow> config \<Rightarrow> opportunity \<Rightarrow> sys \<Rightarrow> (error + bool) \<times> sys" where
  "validateOpportunity e cfg opp s =
     (case getCurrentGasPrice e s of
        (Inl err, s1) \<Rightarrow> (Inr False, s1)
      | (Inr currentGasPrice, s1) \<Rightarrow>
          if currentGasPrice > maxGasPrice cfg then (Inr False, s1)
          else if roi opp < - maxSlippage cfg then (Inr False, s1)
          else
            (case wallet_getBalance e (ticks s1) of
               Inl err \<Rightarrow> (Inr False, tick s1)
             | Inr balance \<Rightarrow>
                 let estimatedGasCost = currentGasPrice * gasLimit cfg
                 in (if balance < estimatedGasCost then (Inr False, tick s1)
                     else (Inr True, tick s1))))"

definition estimateGas ::
  "env \<Rightarrow> config \<Rightarrow> token \<Rightarrow> int \<Rightarrow> extra_data \<Rightarrow> sys \<Rightarrow> (error + int) \<times> sys" where
  "estimateGas e cfg tok amt extra s =
     (if js_falsy tok then (Inr 3000000, s)
      else
        (case contract_estimateGas e (ticks s) tok amt extra of
           Inl err \<Rightarrow> (Inr 3000000, tick s)
         | Inr gasEstimate \<Rightarrow>
             if gasEstimate > maxGasEstimate cfg then (Inr (maxGasEstimate cfg), tick s)
             else (Inr (tdiv (gasEstimate * 120) 100), tick s)))"

definition handleGasError :: "env \<Rightarrow> sys \<Rightarrow> sys" where
  "handleGasError e s = snd (getCurrentGasPrice e (sleep 10000 s))"

datatype execution = FeeLimitExceeded | Executed

definition arb_failed :: "env \<Rightarrow> error \<Rightarrow> sys \<Rightarrow> (error + execution) \<times> sys" where
  \<comment> \<open>the \<open>catch\<close> block of \<open>executeArbitrage\<close>\<close>
  "arb_failed e err s =
     (let s1 = s\<lparr>arb := (arb s)\<lparr>stats := (stats (arb s))\<lparr>errors :=
                    js_increment (errors (stats (arb s)))\<rparr>\<rparr>\<rparr>;
          s2 = (if str_includes (message err) ''gas'' \<or> str_includes (message err) ''insufficient''
                then handleGasError e s1 else s1)
      in (Inl err, s2))"

text \<open>
  After a receipt with status 1 the source updates the statistics and then calls
  \<open>logger.success\<close>, a method the logger module does not define: the call throws a
  \<open>TypeError\<close>, which the \<open>catch\<close> block counts and throws again. The end of the
  \<open>try\<close> block (\<open>Executed\<close>) is therefore never reached.
\<close>

definition arb_settle ::
  "env \<Rightarrow> opportunity \<Rightarrow> int \<Rightarrow> receipt \<Rightarrow> sys \<Rightarrow> (error + execution) \<times> sys" where
  \<comment> \<open>\<open>executeArbitrage\<close> from the receipt on: the statistics and the status check\<close>
  "arb_settle e opp gasPrice rcpt s =
     (let (finished, s1) = Date_now e s;
          st = stats (arb s1);
          st1 = st\<lparr>totalExecutions := Suc (totalExecutions st),
                   totalGasUsed := totalGasUsed st + gasUsed rcpt * gasPrice,
                   lastExecution := Some finished\<rparr>
      in if status rcpt = 1
         then
           let st2 = st1\<lparr>successfulArbitrages := Suc (successfulArbitrages st1),
                         totalProfit := totalProfit st1 + profit opp\<rparr>
           in arb_failed e (Error ''logger.success is not a function'')
                (s1\<lparr>arb := (arb s1)\<lparr>stats := st2\<rparr>\<rparr>)
         else arb_failed e (Error ''Transaction failed'') (s1\<lparr>arb := (arb s1)\<lparr>stats := st1\<rparr>\<rparr>))"

definition arb_submit ::
  "env \<Rightarrow> config \<Rightarrow> opportunity \<Rightarrow> int \<Rightarrow> extra_data \<Rightarrow> int \<Rightarrow> int \<Rightarrow> sys
     \<Rightarrow> (error + execution) \<times> sys" where
  \<comment> \<open>\<open>executeArbitrage\<close> from the gas estimate to the receipt; \<open>started\<close> is the value
      written to \<open>lastExecutionTime\<close> at the start of this execution. The message of the
      first error also carries the two numbers, which no handler looks at.\<close>
  "arb_submit e cfg opp started extra gasPrice gasEstimate s =
     (if gasEstimate > gasLimit cfg then arb_failed e (Error ''Gas estimate too high'') s
      else
        let gasCost = gasEstimate * gasPrice;
            aaveFee = tdiv (opp_flashLoanAmount opp * 5) 10000;
            totalFee = gasCost + aaveFee
        in if totalFee > maxFeeLimit cfg then (Inr FeeLimitExceeded, s)
           else
             let tx = \<lparr> borrowedToken = token1 (pair opp),
                         amount = opp_flashLoanAmount opp,
                         extraData = extra,
                         tx_gasLimit = tdiv (gasEstimate * 120) 100,
                         tx_gasPrice = gasPrice \<rparr>;
                 s1 = tick (s\<lparr>submitted := (started, tx) # submitted s,
                              sent_at := clock e (ticks s) # sent_at s\<rparr>)
             in (case contract_arbitrage e (ticks s) tx of
                   Inl err \<Rightarrow> arb_failed e err s1
                 | Inr _ \<Rightarrow>
                     (case tx_wait e (ticks s1) of
                        Inl err \<Rightarrow> arb_failed e err (tick s1)
                      | Inr rcpt \<Rightarrow> arb_settle e opp gasPrice rcpt (tick s1))))"

definition executeArbitrage ::
  "env \<Rightarrow> config \<Rightarrow> opportunity \<Rightarrow> sys \<Rightarrow> (error + execution) \<times> sys" where
  "executeArbitrage e cfg opp s =
     (let (startTime, s0) = Date_now e s;
          (started, s1) = Date_now e s0;
          s2 = s1\<lparr>arb := (arb s1)\<lparr>lastExecutionTime := started\<rparr>\<rparr>
      in case getCurrentGasPrice e s2 of
           (Inl err, s3) \<Rightarrow> arb_failed e err s3
         | (Inr gasPrice, s3) \<Rightarrow>
             let extra = \<lparr> swapToken = token2 (pair opp), extra_minProfit = minProfit cfg,
                           firstRouter = (if direction opp = UNI_TO_SUSHI then 0 else 1),
                           secondRouter = (if direction opp = UNI_TO_SUSHI then 1 else 0) \<rparr>
             in (case estimateGas e cfg (token1 (pair opp)) (opp_flashLoanAmount opp) extra s3 of
                   (Inl err, s4) \<Rightarrow> arb_failed e err s4
                 | (Inr gasEstimate, s4) \<Rightarrow>
                     arb_submit e cfg opp started extra gasPrice gasEstimate s4))"







subsection \<open>The execution loop\<close>







section \<open>Supervisor: \<open>index.js\<close>\<close>

text \<open>
  The fields of \<open>ArbitrageBot\<close> that the monitoring callbacks touch. \<open>restart()\<close> stops
  the services, waits and starts them again; none of that writes \<open>stats.errors\<close> or
  \<open>stats.consecutiveErrors\<close>, so a restart is recorded here as one more call in
  \<open>restarts\<close>, a counter the source does not keep.
\<close>

record bot =
  bot_errors :: nat
  consecutiveErrors :: int
  maxConsecutiveErrors :: int
  restarts :: nat

definition new_ArbitrageBot :: bot where
  "new_ArbitrageBot =
     \<lparr> bot_errors = 0, consecutiveErrors = 0, maxConsecutiveErrors = 5, restarts = 0 \<rparr>"

datatype health = Healthy | Unhealthy string

definition restart :: "bot \<Rightarrow> bot" where
  "restart b = b\<lparr>restarts := Suc (restarts b)\<rparr>"

definition handleMonitoringError :: "error \<Rightarrow> bot \<Rightarrow> bot" where
  "handleMonitoringError err b =
     (let b1 = b\<lparr>bot_errors := Suc (bot_errors b)\<rparr>
      in if str_includes (message err) ''RPC'' \<or> str_includes (message err) ''network''
            \<or> str_includes (message err) ''connection''
         then b1\<lparr>consecutiveErrors := consecutiveErrors b1 + 1\<rparr>
         else b1\<lparr>consecutiveErrors := max 0 (consecutiveErrors b1 - 1)\<rparr>)"

definition healthMonitoring :: "health \<Rightarrow> bot \<Rightarrow> bot" where
  \<comment> \<open>the callback of the health interval, given what \<open>checkSystemHealth\<close> returned\<close>
  "healthMonitoring h b =
     (if h \<noteq> Healthy
      then
        let b1 = b\<lparr>consecutiveErrors := consecutiveErrors b + 1\<rparr>
        in if consecutiveErrors b1 \<ge> maxConsecutiveErrors b1 then restart b1 else b1
      else b\<lparr>consecutiveErrors := 0\<rparr>)"

definition gasMonitoring :: "error + int \<Rightarrow> bot \<Rightarrow> bot" where
  \<comment> \<open>the callback of the gas interval, given what \<open>getCurrentGasPrice\<close> returned\<close>
  "gasMonitoring r b = (case r of Inl err \<Rightarrow> handleMonitoringError err b | Inr gasPrice \<Rightarrow> b)"

definition statsMonitoring :: "error option \<Rightarrow> bot \<Rightarrow> bot" where
  \<comment> \<open>the callback of the statistics interval, given the error its body threw, if any\<close>
  "statsMonitoring r b = (case r of Some err \<Rightarrow> handleMonitoringError err b | None \<Rightarrow> b)"

text \<open>
  A run of the supervisor is the sequence of its callbacks, in the order they fire.
  \<open>checkSystemHealth\<close> and \<open>restart\<close> catch their own errors, so the \<open>catch\<close> block of
  the health callback is never entered.
\<close>

datatype callback = HealthTick health | GasTick "error + int" | StatsTick "error option"

fun fire :: "callback \<Rightarrow> bot \<Rightarrow> bot" where
  "fire (HealthTick h) b = healthMonitoring h b"
| "fire (GasTick r) b = gasMonitoring r b"
| "fire (StatsTick r) b = statsMonitoring r b"

definition startMonitoringLoops :: "callback list \<Rightarrow> bot \<Rightarrow> bot" where
  "startMonitoringLoops cbs b = fold fire cbs b"


section \<open>Predicates used by the theorems\<close>

text \<open>
  \<open>frame s s'\<close>: between \<open>s\<close> and \<open>s'\<close> the arbitrage service and the log of submitted
  transactions are untouched, and interactions with the outside were only added.
\<close>

definition frame :: "sys \<Rightarrow> sys \<Rightarrow> bool" where
  "frame s s' = (arb s' = arb s \<and> submitted s' = submitted s \<and> ticks s \<le> ticks s')"







section \<open>A concrete environment\<close>

text \<open>
  An environment for evaluating the model: the clock advances one second per
  interaction, the gas price is 5 gwei, Uniswap quotes \<open>5.02 * 10^18\<close> and Sushiswap
  \<open>5.10 * 10^18\<close> for whatever they are asked, the node estimates one million gas and
  every transaction succeeds.
\<close>

definition example_env :: env where
  "example_env =
     \<lparr> clock = (\<lambda>n. 1700000000000 + 1000 * int n),
       provider_getGasPrice = (\<lambda>n. Inr (gwei 5)),
       provider_getBlockNumber = (\<lambda>n. Inr (int n)),
       wallet_getBalance = (\<lambda>n. Inr (ether_milli 1000)),
       aave_liquidityIndex = (\<lambda>n. Inr 1),
       uniswap_getAmountsOut = (\<lambda>n a path. Inr 5020000000000000000),
       sushiswap_getAmountsOut = (\<lambda>n a path. Inr 5100000000000000000),
       contract_estimateGas = (\<lambda>n tok a x. Inr 1000000),
       contract_arbitrage = (\<lambda>n tx. Inr ()),
       tx_wait = (\<lambda>n. Inr \<lparr> status = 1, gasUsed = 900000 \<rparr>) \<rparr>"

definition weth_usdc :: trading_pair where
  "weth_usdc = \<lparr> token1 = WETH, token2 = USDC, name = ''WETH/USDC'' \<rparr>"

definition example_sys :: sys where
  "example_sys = initial_sys default_config 1700000000000"

definition full_history_sys :: sys where
  \<comment> \<open>the gas service after one hundred samples of 20 gwei\<close>
  "full_history_sys =
     example_sys\<lparr>gas := new_GasService\<lparr>gasPriceHistory :=
        replicate 100 \<lparr> price = gwei 20, timestamp = 1699999999000 \<rparr>\<rparr>\<rparr>"

text \<open>
  The same environment with both exchanges quoting the input amount back: no spread,
  so each direction loses the flash-loan fee.
\<close>

definition flat_env :: env where
  "flat_env =
     example_env\<lparr>uniswap_getAmountsOut := (\<lambda>n a path. Inr a),
                 sushiswap_getAmountsOut := (\<lambda>n a path. Inr a)\<rparr>"



text \<open>
  The opportunity that \<open>findArbitrageOpportunity\<close> finds in the example environment, an
  environment whose node fails every gas-price request, and one whose clock advances
  only 30 ms per interaction.
\<close>

definition example_opportunity :: opportunity where
  "example_opportunity =
     \<lparr> pair = weth_usdc, direction = UNI_TO_SUSHI,
       opp_flashLoanAmount = 5000000000000000000, profit = 97500000000000000,
       price1 = 5020000000000000000, price2 = 5100000000000000000,
       totalCost = 5002500000000000000, roi = 195 / 100 \<rparr>"

definition failing_env :: env where
  "failing_env = example_env\<lparr>provider_getGasPrice := (\<lambda>n. Inl (Error ''RPC timeout''))\<rparr>"



text \<open>How many health checks of a run of the supervisor failed, and how many succeeded.\<close>

definition failed_health_checks :: "callback list \<Rightarrow> nat" where
  "failed_health_checks cbs =
     length (filter (\<lambda>c. case c of HealthTick h \<Rightarrow> h \<noteq> Healthy | _ \<Rightarrow> False) cbs)"

definition successful_health_checks :: "callback list \<Rightarrow> nat" where
  "successful_health_checks cbs =
     length (filter (\<lambda>c. case c of HealthTick h \<Rightarrow> h = Healthy | _ \<Rightarrow> False) cbs)"


section \<open>Frame lemmas: what the read-only operations leave alone\<close>


lemma frame_trans: "frame s s1 \<Longrightarrow> frame s1 s2 \<Longrightarrow> frame s s2"
  by (simp add: frame_def)

lemma frame_tick: "frame s (tick s)"
  by (simp add: frame_def tick_def)


lemma frame_Date_now: "frame s (snd (Date_now e s))"
  by (simp add: Date_now_def frame_tick)

lemma frame_gas_update: "frame s (s\<lparr>gas := g\<rparr>)"
  by (simp add: frame_def)

lemma frame_prices_update: "frame s (s\<lparr>prices := g\<rparr>)"
  by (simp add: frame_def)

lemma frame_addToHistory: "frame s (addToHistory e p s)"
  by (simp add: addToHistory_def Date_now_def tick_def frame_def Let_def)

lemma frame_gasPriceCache_lookup: "frame s (snd (gasPriceCache_lookup e s))"
  by (simp add: gasPriceCache_lookup_def Date_now_def tick_def frame_def split: option.split)

lemma frame_getCurrentGasPrice: "frame s (snd (getCurrentGasPrice e s))"
proof -
  obtain r s1 where l: "gasPriceCache_lookup e s = (r, s1)"
    by (cases "gasPriceCache_lookup e s")
  have f1: "frame s s1"
    using frame_gasPriceCache_lookup [of s e] l by simp
  show ?thesis
  proof (cases r)
    case (Some cached)
    with l f1 show ?thesis by (simp add: getCurrentGasPrice_def)
  next
    case None
    show ?thesis
    proof (cases "provider_getGasPrice e (ticks s1)")
      case (Inl err)
      with None l show ?thesis
        using frame_trans [OF f1 frame_tick]
        by (simp add: getCurrentGasPrice_def)
    next
      case (Inr gasPrice)
      have "frame s1 (addToHistory e gasPrice
              ((snd (Date_now e (tick s1)))\<lparr>gas := g\<rparr>))" for g
        by (rule frame_trans [OF frame_tick
              frame_trans [OF frame_Date_now frame_trans [OF frame_gas_update frame_addToHistory]]])
      with Inr None l f1 show ?thesis
        by (auto simp add: getCurrentGasPrice_def Let_def split_beta intro: frame_trans)
    qed
  qed
qed










lemma frame_validateOpportunity: "frame s (snd (validateOpportunity e cfg opp s))"
proof -
  obtain r s1 where a: "getCurrentGasPrice e s = (r, s1)"
    by (cases "getCurrentGasPrice e s")
  have f1: "frame s s1" using frame_getCurrentGasPrice [of s e] a by simp
  have f2: "frame s (tick s1)" by (rule frame_trans [OF f1 frame_tick])
  show ?thesis
    using a f1 f2 by (simp add: validateOpportunity_def Let_def split: sum.split)
qed





section \<open>The spacing of executions\<close>























section \<open>Gas price levels\<close>

text \<open>
  Claim C3. The classification of a gas price cuts the price axis at the four
  ascending thresholds (10, 30, 50 and 100 gwei) into closed-open intervals: it is
  monotonic in the price; for each threshold, a price below it has at most the rank of
  the threshold's position and a price at or above it a higher rank; the price just
  below a threshold is exactly one level under the threshold itself; and a price equal
  to a threshold falls into the higher level.
\<close>

theorem getGasPriceLevel_closed_open:
  "(p \<le> q \<longrightarrow> level_rank (getGasPriceLevel p) \<le> level_rank (getGasPriceLevel q))
   \<and> (\<forall>i < length thresholds.
         (p < thresholds ! i \<longrightarrow> level_rank (getGasPriceLevel p) \<le> i)
       \<and> (thresholds ! i \<le> p \<longrightarrow> i < level_rank (getGasPriceLevel p))
       \<and> level_rank (getGasPriceLevel (thresholds ! i - 1)) = i
       \<and> level_rank (getGasPriceLevel (thresholds ! i)) = Suc i)
   \<and> (getGasPriceLevel p = Low) = (p < gwei 10)
   \<and> (getGasPriceLevel p = Medium) = (gwei 10 \<le> p \<and> p < gwei 30)
   \<and> (getGasPriceLevel p = High) = (gwei 30 \<le> p \<and> p < gwei 50)
   \<and> (getGasPriceLevel p = Extreme) = (gwei 50 \<le> p \<and> p < gwei 100)
   \<and> (getGasPriceLevel p = Critical) = (gwei 100 \<le> p)"
proof -
  have mono: "p \<le> q \<longrightarrow> level_rank (getGasPriceLevel p) \<le> level_rank (getGasPriceLevel q)"
    by (simp add: getGasPriceLevel_def thresholds_low_def thresholds_medium_def
        thresholds_high_def thresholds_extreme_def gwei_def)
  have each: "(p < thresholds ! i \<longrightarrow> level_rank (getGasPriceLevel p) \<le> i)
       \<and> (thresholds ! i \<le> p \<longrightarrow> i < level_rank (getGasPriceLevel p))
       \<and> level_rank (getGasPriceLevel (thresholds ! i - 1)) = i
       \<and> level_rank (getGasPriceLevel (thresholds ! i)) = Suc i"
    if "i < length thresholds" for i
  proof -
    from that have "i = 0 \<or> i = 1 \<or> i = 2 \<or> i = 3"
      by (simp add: thresholds_def) arith
    then show ?thesis
      by (elim disjE)
        (simp_all add: thresholds_def getGasPriceLevel_def thresholds_low_def
          thresholds_medium_def thresholds_high_def thresholds_extreme_def gwei_def)
  qed
  have parts: "(getGasPriceLevel p = Low) = (p < gwei 10)"
    "(getGasPriceLevel p = Medium) = (gwei 10 \<le> p \<and> p < gwei 30)"
    "(getGasPriceLevel p = High) = (gwei 30 \<le> p \<and> p < gwei 50)"
    "(getGasPriceLevel p = Extreme) = (gwei 50 \<le> p \<and> p < gwei 100)"
    "(getGasPriceLevel p = Critical) = (gwei 100 \<le> p)"
    by (auto simp add: getGasPriceLevel_def thresholds_low_def thresholds_medium_def
        thresholds_high_def thresholds_extreme_def gwei_def)
  from mono each parts show ?thesis by blast
qed

theorem getGasPriceLevel_closed_open_witness:
  "level_rank (getGasPriceLevel (gwei 30 - 1)) = 1
   \<and> getGasPriceLevel (gwei 30) = High
   \<and> level_rank (getGasPriceLevel (gwei 29)) \<le> level_rank (getGasPriceLevel (gwei 30))"
  using getGasPriceLevel_closed_open [of "gwei 29" "gwei 30"]
  by (simp add: getGasPriceLevel_def thresholds_low_def thresholds_medium_def
      thresholds_high_def thresholds_extreme_def gwei_def)


section \<open>The bounded history of gas prices\<close>

lemma addToHistory_history:
  "gasPriceHistory (gas (addToHistory e p s)) =
     (if length (gasPriceHistory (gas s)) < maxHistorySize then gasPriceHistory (gas s)
      else tl (gasPriceHistory (gas s)))
     @ [\<lparr> price = p, timestamp = clock e (ticks s) \<rparr>]"
  by (cases "gasPriceHistory (gas s)")
     (simp_all add: addToHistory_def Date_now_def tick_def maxHistorySize_def Let_def)

lemma addToHistory_length:
  "length (gasPriceHistory (gas s)) \<le> maxHistorySize \<Longrightarrow>
   length (gasPriceHistory (gas (addToHistory e p s))) \<le> maxHistorySize"
  by (simp add: addToHistory_history maxHistorySize_def)

lemma fold_addToHistory_length:
  "length (gasPriceHistory (gas s)) \<le> maxHistorySize \<Longrightarrow>
   length (gasPriceHistory (gas (fold (addToHistory e) ps s))) \<le> maxHistorySize"
  by (induction ps arbitrary: s) (simp_all add: addToHistory_length)

text \<open>
  Claim C9. The history of gas-price samples is bounded: starting from a history of at
  most 100 samples (the constructor's is empty), it holds at most 100 samples after any
  sequence of appends; and an append to a history that is not yet full adds the new
  sample at the end, while an append to a full history drops the oldest sample and
  keeps all the others, in order, before the new one.
\<close>

theorem addToHistory_bounded:
  assumes "length (gasPriceHistory (gas s0)) \<le> maxHistorySize"
  shows "length (gasPriceHistory (gas (fold (addToHistory e) ps s0))) \<le> maxHistorySize
       \<and> gasPriceHistory (gas (addToHistory e p s)) =
           (if length (gasPriceHistory (gas s)) < maxHistorySize then gasPriceHistory (gas s)
            else tl (gasPriceHistory (gas s)))
           @ [\<lparr> price = p, timestamp = clock e (ticks s) \<rparr>]"
  using assms by (simp add: fold_addToHistory_length addToHistory_history)

theorem addToHistory_bounded_witness:
  "length (gasPriceHistory (gas full_history_sys)) = 100
   \<and> length (gasPriceHistory (gas (fold (addToHistory example_env) [gwei 21, gwei 22]
                full_history_sys))) \<le> 100
   \<and> gasPriceHistory (gas (addToHistory example_env (gwei 21) full_history_sys)) =
       tl (replicate 100 \<lparr> price = gwei 20, timestamp = 1699999999000 \<rparr>)
       @ [\<lparr> price = gwei 21, timestamp = 1700000000000 \<rparr>]"
proof -
  have h: "gasPriceHistory (gas full_history_sys) =
             replicate 100 \<lparr> price = gwei 20, timestamp = 1699999999000 \<rparr>"
    by (simp add: full_history_sys_def)
  have t: "ticks full_history_sys = 0"
    by (simp add: full_history_sys_def example_sys_def initial_sys_def)
  have b: "length (gasPriceHistory (gas full_history_sys)) \<le> maxHistorySize"
    by (simp add: h maxHistorySize_def)
  show ?thesis
    using addToHistory_bounded [OF b, of example_env "[gwei 21, gwei 22]" "gwei 21" full_history_sys]
    by (simp add: h t maxHistorySize_def example_env_def)
qed


section \<open>The profit of one direction\<close>

lemma tdiv_nonneg: "0 \<le> a \<Longrightarrow> 0 < b \<Longrightarrow> tdiv a b = a div b"
  by (cases "a = 0") (simp_all add: tdiv_def)

lemma router_getAmountsOut_Inr:
  "router_getAmountsOut d e a path s = (Inr out, s') \<Longrightarrow> 0 \<le> a \<and> s' = tick s"
  by (auto simp add: router_getAmountsOut_def split: if_splits)

text \<open>
  Claim C1. Given the two quoted swap outputs of a direction (\<open>out1\<close> from the first
  exchange for the borrowed amount, \<open>out2\<close> from the second exchange for \<open>out1\<close>),
  \<open>calculateArbitrage\<close> returns an opportunity whose profit is
  \<open>out2 - (flashLoanAmount + fee)\<close> with \<open>fee = floor (flashLoanAmount * 5 / 10000)\<close>, in
  exact integer arithmetic (\<open>div\<close> on \<open>int\<close> is the floor). The only way it fails once
  the quotes exist is in the return-on-investment field, computed after the profit: a
  zero loan (division by zero) or a ratio beyond 53 bits (\<open>toNumber\<close>). The witness is
  the instance of the specification: a loan of \<open>5 * 10^18\<close> with outputs
  \<open>5.02 * 10^18\<close> and \<open>5.10 * 10^18\<close> gives a profit of exactly \<open>0.0975 * 10^18\<close>.
\<close>

theorem calculateArbitrage_profit:
  assumes q1: "router_getAmountsOut (if dir = UNI_TO_SUSHI then Uniswap else Sushiswap) e
                 (flashLoanAmount cfg) [token1 p, token2 p] s = (Inr out1, s1)"
      and q2: "router_getAmountsOut (if dir = UNI_TO_SUSHI then Sushiswap else Uniswap) e
                 out1 [token2 p, token1 p] s1 = (Inr out2, s2)"
  shows "case calculateArbitrage e cfg p p1 p2 dir s of
           (Inl err, s') \<Rightarrow>
             flashLoanAmount cfg = 0
             \<or> 2 ^ 53 \<le> \<bar>tdiv ((out2 - (flashLoanAmount cfg + flashLoanAmount cfg * 5 div 10000)) * 10000)
                              (flashLoanAmount cfg)\<bar>
         | (Inr opp, s') \<Rightarrow>
             profit opp = out2 - (flashLoanAmount cfg + flashLoanAmount cfg * 5 div 10000)
             \<and> totalCost opp = flashLoanAmount cfg + flashLoanAmount cfg * 5 div 10000
             \<and> opp_flashLoanAmount opp = flashLoanAmount cfg
             \<and> direction opp = dir \<and> s' = s2"
proof -
  from q1 have "0 \<le> flashLoanAmount cfg"
    by (rule router_getAmountsOut_Inr [THEN conjunct1])
  then have fee: "tdiv (flashLoanAmount cfg * 5) 10000 = flashLoanAmount cfg * 5 div 10000"
    by (simp add: tdiv_nonneg)
  show ?thesis
    using q1 q2
    by (simp add: calculateArbitrage_def Let_def fee bn_div_def toNumber_def)
qed

theorem calculateArbitrage_profit_witness:
  "\<exists>opp s'. calculateArbitrage example_env default_config weth_usdc 0 0 UNI_TO_SUSHI example_sys
              = (Inr opp, s')
            \<and> flashLoanAmount default_config = 5 * 10 ^ 18
            \<and> profit opp = 97500000000000000"
proof -
  have q1: "router_getAmountsOut (if UNI_TO_SUSHI = UNI_TO_SUSHI then Uniswap else Sushiswap)
              example_env (flashLoanAmount default_config) [token1 weth_usdc, token2 weth_usdc]
              example_sys = (Inr 5020000000000000000, tick example_sys)"
    by (simp add: router_getAmountsOut_def example_env_def default_config_def ether_milli_def)
  have q2: "router_getAmountsOut (if UNI_TO_SUSHI = UNI_TO_SUSHI then Sushiswap else Uniswap)
              example_env 5020000000000000000 [token2 weth_usdc, token1 weth_usdc]
              (tick example_sys) = (Inr 5100000000000000000, tick (tick example_sys))"
    by (simp add: router_getAmountsOut_def example_env_def)
  have loan: "flashLoanAmount default_config = 5 * 10 ^ 18"
    by (simp add: default_config_def ether_milli_def)
  have small: "\<not> (flashLoanAmount default_config = 0
     \<or> 2 ^ 53 \<le> \<bar>tdiv ((5100000000000000000 - (flashLoanAmount default_config
            + flashLoanAmount default_config * 5 div 10000)) * 10000)
          (flashLoanAmount default_config)\<bar>)"
    by (simp add: loan tdiv_def)
  obtain r s' where c:
    "calculateArbitrage example_env default_config weth_usdc 0 0 UNI_TO_SUSHI example_sys = (r, s')"
    by (cases "calculateArbitrage example_env default_config weth_usdc 0 0 UNI_TO_SUSHI example_sys")
  show ?thesis
  proof (cases r)
    case (Inl err)
    with c small calculateArbitrage_profit [OF q1 q2, of 0 0] show ?thesis by simp
  next
    case (Inr opp)
    with c calculateArbitrage_profit [OF q1 q2, of 0 0] have
      "profit opp = 5100000000000000000 - (flashLoanAmount default_config
            + flashLoanAmount default_config * 5 div 10000)"
      by simp
    then have "profit opp = 97500000000000000" by (simp add: loan)
    with Inr c loan show ?thesis by simp
  qed
qed


section \<open>Opportunities without profit\<close>

lemma bestOpportunity_max:
  "profit (bestOpportunity a b) = max (profit a) (profit b)"
  by (simp add: bestOpportunity_def)

lemma findArbitrageOpportunity_positive:
  "fst (findArbitrageOpportunity e cfg p s) = Some opp \<Longrightarrow> 0 < profit opp"
  by (auto simp add: findArbitrageOpportunity_def Let_def split_beta
      split: if_splits sum.splits prod.splits)

text \<open>
  Claim C5. An opportunity whose best direction is not strictly profitable is
  discarded: whatever \<open>findArbitrageOpportunity\<close> returns is either \<open>null\<close> or an
  opportunity with a strictly positive profit; and when both directions were
  evaluated, it returns the direction with the larger profit if that profit is
  positive, and \<open>null\<close> otherwise.
\<close>

theorem findArbitrageOpportunity_discards:
  "(case fst (findArbitrageOpportunity e cfg p s) of
      None \<Rightarrow> True
    | Some opp \<Rightarrow> 0 < profit opp)
   \<and> (\<not> js_falsy (token1 p) \<and> \<not> js_falsy (token2 p) \<and> \<not> identical_pair p
      \<and> promise_all2 (getUniswapPrice e cfg (token1 p) (token2 p) None)
                      (getSushiswapPrice e cfg (token1 p) (token2 p) None)
                      (snd (Date_now e s)) = (Inr (uniPrice, sushiPrice), s1)
      \<and> promise_all2 (calculateArbitrage e cfg p uniPrice sushiPrice UNI_TO_SUSHI)
                      (calculateArbitrage e cfg p sushiPrice uniPrice SUSHI_TO_UNI) s1
          = (Inr (first, second), s2)
      \<longrightarrow> fst (findArbitrageOpportunity e cfg p s) =
            (if 0 < max (profit first) (profit second)
             then Some (bestOpportunity first second) else None)
          \<and> profit (bestOpportunity first second) = max (profit first) (profit second))"
proof -
  have a: "case fst (findArbitrageOpportunity e cfg p s) of
      None \<Rightarrow> True | Some opp \<Rightarrow> 0 < profit opp"
    by (simp add: findArbitrageOpportunity_positive split: option.split)
  have b: "fst (findArbitrageOpportunity e cfg p s) =
            (if 0 < max (profit first) (profit second)
             then Some (bestOpportunity first second) else None)"
    if "\<not> js_falsy (token1 p)" "\<not> js_falsy (token2 p)" "\<not> identical_pair p"
      "promise_all2 (getUniswapPrice e cfg (token1 p) (token2 p) None)
                      (getSushiswapPrice e cfg (token1 p) (token2 p) None)
                      (snd (Date_now e s)) = (Inr (uniPrice, sushiPrice), s1)"
      "promise_all2 (calculateArbitrage e cfg p uniPrice sushiPrice UNI_TO_SUSHI)
                      (calculateArbitrage e cfg p sushiPrice uniPrice SUSHI_TO_UNI) s1
          = (Inr (first, second), s2)"
    using that
    by (simp add: findArbitrageOpportunity_def Let_def split_beta bestOpportunity_max)
  from a b bestOpportunity_max show ?thesis by blast
qed


lemma flat_prices:
  "fst (promise_all2 (getUniswapPrice flat_env default_config (token1 weth_usdc) (token2 weth_usdc) None)
                      (getSushiswapPrice flat_env default_config (token1 weth_usdc) (token2 weth_usdc) None)
                      (snd (Date_now flat_env example_sys)))
   = Inr (1000000000000000000, 1000000000000000000)"
  by code_simp


lemma flat_calc:
  "\<exists>first second s2.
     promise_all2 (calculateArbitrage flat_env default_config weth_usdc u v UNI_TO_SUSHI)
                  (calculateArbitrage flat_env default_config weth_usdc v u SUSHI_TO_UNI) s
       = (Inr (first, second), s2)
     \<and> profit first = - 2500000000000000 \<and> profit second = - 2500000000000000"
  by (simp add: promise_all2_def calculateArbitrage_def router_getAmountsOut_def flat_env_def
      example_env_def default_config_def ether_milli_def tdiv_def bn_div_def toNumber_def
      tick_def Let_def)

lemma weth_usdc_distinct:
  "\<not> js_falsy (token1 weth_usdc) \<and> \<not> js_falsy (token2 weth_usdc) \<and> \<not> identical_pair weth_usdc"
  by code_simp

theorem findArbitrageOpportunity_discards_witness:
  "fst (findArbitrageOpportunity flat_env default_config weth_usdc example_sys) = None
   \<and> fst (promise_all2 (getUniswapPrice flat_env default_config WETH USDC None)
                        (getSushiswapPrice flat_env default_config WETH USDC None)
                        (snd (Date_now flat_env example_sys)))
       = Inr (1000000000000000000, 1000000000000000000)"
proof -
  obtain r1 s1 where a:
    "promise_all2 (getUniswapPrice flat_env default_config (token1 weth_usdc) (token2 weth_usdc) None)
                  (getSushiswapPrice flat_env default_config (token1 weth_usdc) (token2 weth_usdc) None)
                  (snd (Date_now flat_env example_sys)) = (r1, s1)"
    by (cases "promise_all2 (getUniswapPrice flat_env default_config (token1 weth_usdc) (token2 weth_usdc) None)
                  (getSushiswapPrice flat_env default_config (token1 weth_usdc) (token2 weth_usdc) None)
                  (snd (Date_now flat_env example_sys))")
  with flat_prices have r1: "r1 = Inr (1000000000000000000, 1000000000000000000)" by simp
  obtain first second s2 where b:
    "promise_all2 (calculateArbitrage flat_env default_config weth_usdc
                        1000000000000000000 1000000000000000000 UNI_TO_SUSHI)
                     (calculateArbitrage flat_env default_config weth_usdc
                        1000000000000000000 1000000000000000000 SUSHI_TO_UNI) s1
          = (Inr (first, second), s2)"
    and pf: "profit first = - 2500000000000000" "profit second = - 2500000000000000"
    using flat_calc [of 1000000000000000000 1000000000000000000 s1] by blast
  from findArbitrageOpportunity_discards [of flat_env default_config weth_usdc example_sys
      1000000000000000000 1000000000000000000 s1 first second s2]
    weth_usdc_distinct a r1 b pf
  have "fst (findArbitrageOpportunity flat_env default_config weth_usdc example_sys) = None"
    by simp
  with flat_prices show ?thesis by (simp add: weth_usdc_def)
qed


section \<open>Identical tokens\<close>

lemma toLowerCase_length: "length (toLowerCase s) = length s"
  by (simp add: toLowerCase_def)

lemma getRouterPrice_identical:
  assumes "toLowerCase tin = toLowerCase tout"
  shows "getRouterPrice d e cfg (Some tin) (Some tout) amt s =
           (Inl (if tin = [] then Error ''Token addresses cannot be undefined''
                 else Error ''Cannot get price for identical tokens''), s)"
proof -
  from assms have "length tin = length tout"
    by (metis toLowerCase_length)
  then have "tin = [] \<longleftrightarrow> tout = []" by auto
  with assms show ?thesis
    by (simp add: getRouterPrice_def js_falsy_def)
qed

text \<open>
  Claim C4. A request for a quote or for a spread whose two token addresses are equal
  up to case fails, on either exchange, and leaves the whole state as it was: the rate
  limiter is not called, no router is asked, nothing is cached. For a token address (a
  non-empty string) the error is the invalid-pair error
  \<open>Cannot get price for identical tokens\<close>.
\<close>

theorem identical_tokens_rejected:
  assumes "toLowerCase t = toLowerCase t'"
  shows "\<exists>err.
           getUniswapPrice e cfg (Some t) (Some t') amt s = (Inl err, s)
         \<and> getSushiswapPrice e cfg (Some t) (Some t') amt s = (Inl err, s)
         \<and> getPriceDifference e cfg (Some t) (Some t') s = (Inl err, s)
         \<and> (t \<noteq> [] \<longrightarrow> err = Error ''Cannot get price for identical tokens'')"
  using assms
  by (simp add: getUniswapPrice_def getSushiswapPrice_def getPriceDifference_def
      promise_all2_def getRouterPrice_identical)

theorem identical_tokens_rejected_witness:
  "toLowerCase ''0xC02aaA39b223FE8D0A0e5C4F27eAD9083C756Cc2''
     = toLowerCase ''0xc02aaa39b223fe8d0a0e5c4f27ead9083c756cc2''
   \<and> getPriceDifference example_env default_config
        (Some ''0xC02aaA39b223FE8D0A0e5C4F27eAD9083C756Cc2'')
        (Some ''0xc02aaa39b223fe8d0a0e5c4f27ead9083c756cc2'') example_sys
       = (Inl (Error ''Cannot get price for identical tokens''), example_sys)"
proof -
  have h: "toLowerCase ''0xC02aaA39b223FE8D0A0e5C4F27eAD9083C756Cc2''
     = toLowerCase ''0xc02aaa39b223fe8d0a0e5c4f27ead9083c756cc2''"
    by code_simp
  from identical_tokens_rejected [OF h, of example_env default_config None example_sys] h
  show ?thesis by auto
qed


section \<open>The rate limiter\<close>






section \<open>The minimum spacing between executions\<close>












section \<open>The gas limit of a submitted transaction\<close>

text \<open>
  Claim C7 says that the gas limit of a submitted transaction is the backend's estimate
  plus 20 percent. \<open>estimateGas\<close> already returns the backend's estimate times
  \<open>120 / 100\<close>, and \<open>executeArbitrage\<close> multiplies what it gets by \<open>120 / 100\<close> again:
  for a backend estimate of 1000000 the transaction is submitted with a gas limit of
  1440000, not 1200000.
\<close>

theorem executeArbitrage_buffers_twice:
  "(\<forall>n tok a x. contract_estimateGas example_env n tok a x = Inr 1000000)
   \<and> map (tx_gasLimit \<circ> snd)
         (submitted (snd (executeArbitrage example_env default_config example_opportunity example_sys)))
       = [1440000]
   \<and> (1440000::int) \<noteq> 1000000 * 120 div 100"
proof -
  have a: "\<forall>n tok a x. contract_estimateGas example_env n tok a x = Inr 1000000"
    by (simp add: example_env_def)
  have b: "map (tx_gasLimit \<circ> snd)
         (submitted (snd (executeArbitrage example_env default_config example_opportunity example_sys)))
       = [1440000]"
    by code_simp
  from a b show ?thesis by simp
qed

section \<open>Validation before execution\<close>

lemma getCurrentGasPrice_prices: "prices (snd (getCurrentGasPrice e s)) = prices s"
  by (simp add: getCurrentGasPrice_def gasPriceCache_lookup_def addToHistory_def Date_now_def
      tick_def Let_def split: option.split sum.split)

lemma validateOpportunity_prices: "prices (snd (validateOpportunity e cfg opp s)) = prices s"
proof -
  obtain r s1 where g: "getCurrentGasPrice e s = (r, s1)"
    by (cases "getCurrentGasPrice e s")
  with getCurrentGasPrice_prices [of e s] have "prices s1 = prices s" by simp
  with g show ?thesis
    by (simp add: validateOpportunity_def tick_def Let_def split: sum.split)
qed

lemma validateOpportunity_boolean: "\<exists>b. fst (validateOpportunity e cfg opp s) = Inr b"
  by (cases "getCurrentGasPrice e s")
     (auto simp add: validateOpportunity_def Let_def split: sum.split)

lemma validateOpportunity_gas_error:
  "fst (getCurrentGasPrice e s) = Inl err \<Longrightarrow> fst (validateOpportunity e cfg opp s) = Inr False"
  by (cases "getCurrentGasPrice e s") (simp add: validateOpportunity_def)

lemma validateOpportunity_balance_error:
  "wallet_getBalance e (ticks (snd (getCurrentGasPrice e s))) = Inl err \<Longrightarrow>
   fst (validateOpportunity e cfg opp s) = Inr False"
  by (cases "getCurrentGasPrice e s")
     (simp add: validateOpportunity_def Let_def split: sum.split)

lemma validateOpportunity_arb:
  "arb (snd (validateOpportunity e cfg opp s)) = arb s
   \<and> submitted (snd (validateOpportunity e cfg opp s)) = submitted s"
  using frame_validateOpportunity [of s e cfg opp] by (simp add: frame_def)

text \<open>
  Claim C10, as stated, says that validation mutates no state of the engine. The gas
  monitor is part of the engine, and the gas price that validation fetches is written to
  the monitor's cache and appended to its history whenever the cached price is missing
  or stale: in the example environment the history goes from empty to one sample.
\<close>

theorem validateOpportunity_no_engine_state_counterexample:
  "gasPriceHistory (gas example_sys) = []
   \<and> gasPriceCache_current (gas example_sys) = None
   \<and> fst (validateOpportunity example_env default_config example_opportunity example_sys) = Inr True
   \<and> gasPriceHistory (gas (snd (validateOpportunity example_env default_config
          example_opportunity example_sys)))
       = [\<lparr> price = gwei 5, timestamp = 1700000002000 \<rparr>]
   \<and> gasPriceCache_current (gas (snd (validateOpportunity example_env default_config
          example_opportunity example_sys))) = Some (gwei 5)"
  by code_simp

text \<open>
  Claim C10, amended. Validation always returns a boolean and never throws: an error
  of the gas-price fetch or of the balance fetch makes it return \<open>false\<close>. In every
  branch it leaves the arbitrage service (statistics, last execution time, running
  flag, pairs), the price service and the log of submitted transactions as they were;
  what it can change is the gas monitor's cache and history, through the fetch.
\<close>

theorem validateOpportunity_never_throws:
  "(\<exists>b. fst (validateOpportunity e cfg opp s) = Inr b)
   \<and> (\<forall>err. fst (getCurrentGasPrice e s) = Inl err
          \<longrightarrow> fst (validateOpportunity e cfg opp s) = Inr False)
   \<and> (\<forall>err. wallet_getBalance e (ticks (snd (getCurrentGasPrice e s))) = Inl err
          \<longrightarrow> fst (validateOpportunity e cfg opp s) = Inr False)
   \<and> arb (snd (validateOpportunity e cfg opp s)) = arb s
   \<and> prices (snd (validateOpportunity e cfg opp s)) = prices s
   \<and> submitted (snd (validateOpportunity e cfg opp s)) = submitted s"
  using validateOpportunity_boolean [of e cfg opp s] validateOpportunity_arb [of e cfg opp s]
    validateOpportunity_prices [of e cfg opp s]
  by (simp add: validateOpportunity_gas_error validateOpportunity_balance_error)

theorem validateOpportunity_never_throws_witness:
  "fst (getCurrentGasPrice failing_env example_sys) = Inl (Error ''RPC timeout'')
   \<and> fst (validateOpportunity failing_env default_config example_opportunity example_sys) = Inr False
   \<and> arb (snd (validateOpportunity failing_env default_config example_opportunity example_sys))
       = arb example_sys"
proof -
  have g: "fst (getCurrentGasPrice failing_env example_sys) = Inl (Error ''RPC timeout'')"
    by code_simp
  from validateOpportunity_never_throws [of failing_env default_config example_opportunity example_sys] g
  show ?thesis by simp
qed

section \<open>Restart after consecutive failures\<close>

lemma healthMonitoring_step:
  "restarts (healthMonitoring h b) =
     restarts b + (if h \<noteq> Healthy \<and> maxConsecutiveErrors b \<le> consecutiveErrors b + 1 then 1 else 0)
   \<and> consecutiveErrors (healthMonitoring h b) = (if h = Healthy then 0 else consecutiveErrors b + 1)
   \<and> maxConsecutiveErrors (healthMonitoring h b) = maxConsecutiveErrors b"
  by (simp add: healthMonitoring_def restart_def Let_def)

lemma gasMonitoring_step:
  "restarts (gasMonitoring r b) = restarts b
   \<and> restarts (statsMonitoring r' b) = restarts b"
  by (simp add: gasMonitoring_def statsMonitoring_def handleMonitoringError_def Let_def
      split: sum.split option.split)

lemma failures_below_threshold:
  "\<forall>h \<in> set hs. h \<noteq> Healthy \<Longrightarrow>
   consecutiveErrors b + int (length hs) < maxConsecutiveErrors b \<Longrightarrow>
   restarts (fold fire (map HealthTick hs) b) = restarts b
   \<and> consecutiveErrors (fold fire (map HealthTick hs) b) = consecutiveErrors b + int (length hs)
   \<and> maxConsecutiveErrors (fold fire (map HealthTick hs) b) = maxConsecutiveErrors b"
proof (induction hs arbitrary: b)
  case Nil
  show ?case by simp
next
  case (Cons h hs)
  let ?b1 = "healthMonitoring h b"
  from Cons.prems have h: "h \<noteq> Healthy" and rest: "\<forall>h \<in> set hs. h \<noteq> Healthy" by simp_all
  from Cons.prems(2) h have s1: "restarts ?b1 = restarts b"
    "consecutiveErrors ?b1 = consecutiveErrors b + 1"
    "maxConsecutiveErrors ?b1 = maxConsecutiveErrors b"
    by (simp_all add: healthMonitoring_step)
  with Cons.prems(2) have "consecutiveErrors ?b1 + int (length hs) < maxConsecutiveErrors ?b1"
    by simp
  from Cons.IH [OF rest this] s1 show ?case by simp
qed

lemma failures_reach_threshold:
  assumes "\<forall>h \<in> set hs. h \<noteq> Healthy"
      and "consecutiveErrors b = 0"
      and "1 \<le> maxConsecutiveErrors b"
      and "int (length hs) = maxConsecutiveErrors b"
  shows "restarts (fold fire (map HealthTick hs) b) = restarts b + 1"
proof -
  from assms(3,4) have "hs \<noteq> []" by auto
  then obtain hs' h where hs: "hs = hs' @ [h]" by (metis rev_exhaust)
  with assms(1) have h: "h \<noteq> Healthy" and rest: "\<forall>h \<in> set hs'. h \<noteq> Healthy" by simp_all
  from hs assms(2,4) have "consecutiveErrors b + int (length hs') < maxConsecutiveErrors b"
    by simp
  from failures_below_threshold [OF rest this] hs h assms(2,4) show ?thesis
    by (simp add: healthMonitoring_step)
qed

text \<open>
  Claim C8, as stated, ties the restart to the number of successive failed health
  checks. The counter is shared with \<open>handleMonitoringError\<close>, which the gas-monitoring
  callback calls: four RPC errors of the gas monitor followed by a single failed health
  check restart the engine, and five failed health checks in a row with other
  monitoring errors in between do not.
\<close>

theorem restart_not_exactly_after_failed_checks:
  "failed_health_checks
      [HealthTick Healthy, GasTick (Inl (Error ''RPC timeout'')), GasTick (Inl (Error ''RPC timeout'')),
       GasTick (Inl (Error ''RPC timeout'')), GasTick (Inl (Error ''RPC timeout'')),
       HealthTick (Unhealthy ''Memory usage too high'')] = 1
   \<and> restarts (startMonitoringLoops
      [HealthTick Healthy, GasTick (Inl (Error ''RPC timeout'')), GasTick (Inl (Error ''RPC timeout'')),
       GasTick (Inl (Error ''RPC timeout'')), GasTick (Inl (Error ''RPC timeout'')),
       HealthTick (Unhealthy ''Memory usage too high'')] new_ArbitrageBot) = 1
   \<and> failed_health_checks
      [HealthTick (Unhealthy ''x''), GasTick (Inl (Error ''timeout'')),
       HealthTick (Unhealthy ''x''), GasTick (Inl (Error ''timeout'')),
       HealthTick (Unhealthy ''x''), GasTick (Inl (Error ''timeout'')),
       HealthTick (Unhealthy ''x''), GasTick (Inl (Error ''timeout'')),
       HealthTick (Unhealthy ''x'')] = 5
   \<and> successful_health_checks
      [HealthTick (Unhealthy ''x''), GasTick (Inl (Error ''timeout'')),
       HealthTick (Unhealthy ''x''), GasTick (Inl (Error ''timeout'')),
       HealthTick (Unhealthy ''x''), GasTick (Inl (Error ''timeout'')),
       HealthTick (Unhealthy ''x''), GasTick (Inl (Error ''timeout'')),
       HealthTick (Unhealthy ''x'')] = 0
   \<and> restarts (startMonitoringLoops
      [HealthTick (Unhealthy ''x''), GasTick (Inl (Error ''timeout'')),
       HealthTick (Unhealthy ''x''), GasTick (Inl (Error ''timeout'')),
       HealthTick (Unhealthy ''x''), GasTick (Inl (Error ''timeout'')),
       HealthTick (Unhealthy ''x''), GasTick (Inl (Error ''timeout'')),
       HealthTick (Unhealthy ''x'')] new_ArbitrageBot) = 0"
  by code_simp

text \<open>
  Claim C8, amended. A health check triggers a restart exactly when it fails and
  thereby raises the consecutive-error counter to at least \<open>maxConsecutiveErrors\<close>; a
  successful health check sets the counter to zero and triggers no restart; a
  monitoring error never triggers a restart itself. When only health checks touch the
  counter, starting from zero, fewer than \<open>maxConsecutiveErrors\<close> failures in a row
  trigger no restart and exactly \<open>maxConsecutiveErrors\<close> failures in a row trigger
  one. \<open>handleMonitoringError\<close>, which the other monitoring callbacks call, raises the
  same counter by one on an error whose message mentions \<open>RPC\<close>, \<open>network\<close> or
  \<open>connection\<close> and lowers it by one, not below zero, on any other error.
\<close>

theorem healthMonitoring_restart:
  "restarts (healthMonitoring h b) =
     restarts b + (if h \<noteq> Healthy \<and> maxConsecutiveErrors b \<le> consecutiveErrors b + 1 then 1 else 0)
   \<and> consecutiveErrors (healthMonitoring h b) = (if h = Healthy then 0 else consecutiveErrors b + 1)
   \<and> restarts (gasMonitoring r b) = restarts b
   \<and> restarts (statsMonitoring r' b) = restarts b
   \<and> ((\<forall>h \<in> set hs. h \<noteq> Healthy) \<and> consecutiveErrors b = 0 \<and> 1 \<le> maxConsecutiveErrors b
        \<longrightarrow> (int (length hs) < maxConsecutiveErrors b
               \<longrightarrow> restarts (startMonitoringLoops (map HealthTick hs) b) = restarts b)
          \<and> (int (length hs) = maxConsecutiveErrors b
               \<longrightarrow> restarts (startMonitoringLoops (map HealthTick hs) b) = restarts b + 1))
   \<and> restarts (handleMonitoringError err b) = restarts b
   \<and> consecutiveErrors (handleMonitoringError err b) =
       (if str_includes (message err) ''RPC'' \<or> str_includes (message err) ''network''
           \<or> str_includes (message err) ''connection''
        then consecutiveErrors b + 1 else max 0 (consecutiveErrors b - 1))"
  using failures_below_threshold [of hs b] failures_reach_threshold [of hs b]
  by (simp add: healthMonitoring_step gasMonitoring_step startMonitoringLoops_def
      handleMonitoringError_def Let_def)

theorem healthMonitoring_restart_witness:
  "restarts (startMonitoringLoops (map HealthTick (replicate 4 (Unhealthy ''rpc''))) new_ArbitrageBot) = 0
   \<and> restarts (startMonitoringLoops (map HealthTick (replicate 5 (Unhealthy ''rpc''))) new_ArbitrageBot) = 1
   \<and> consecutiveErrors (healthMonitoring Healthy (new_ArbitrageBot\<lparr>consecutiveErrors := 4\<rparr>)) = 0
   \<and> restarts (healthMonitoring Healthy (new_ArbitrageBot\<lparr>consecutiveErrors := 4\<rparr>)) = 0"
  using healthMonitoring_restart [of "Unhealthy ''rpc''" new_ArbitrageBot "Inr 0" None
        "replicate 4 (Unhealthy ''rpc'')"]
    healthMonitoring_restart [of "Unhealthy ''rpc''" new_ArbitrageBot "Inr 0" None
        "replicate 5 (Unhealthy ''rpc'')"]
    healthMonitoring_restart [of Healthy "new_ArbitrageBot\<lparr>consecutiveErrors := 4\<rparr>" "Inr 0" None "[]"]
  by (simp add: new_ArbitrageBot_def)

end
